theory Spec2Isabelle
  imports Main "HOL-Library.Word"
begin

section \<open>Python strings\<close>

text \<open>
  A Python \<open>str\<close> is a sequence of Unicode code points. A code point is a natural
  number and a string is a list of them; \<open>lit\<close> turns an ASCII literal into such a
  string, so that \<open>lit ''A_b''\<close> is \<open>[65, 95, 98]\<close>.
\<close>

type_synonym codepoint = nat
type_synonym pystr = "codepoint list"

definition lit :: "string \<Rightarrow> pystr" where
  "lit s = map of_char s"

text \<open>
  \<open>str.upper\<close> and \<open>str.isalnum\<close> consult the Unicode character database of the
  interpreter. On ASCII both are fixed and written out here. Outside ASCII the database
  is a parameter of the model: \<open>upper_full\<close> is the full upper-case mapping of one code
  point (it may give several: U+00DF gives \<open>SS\<close>), \<open>alnum\<close> is what \<open>isalnum\<close>
  answers on a one-character string.
\<close>

record unicode_data =
  upper_full :: "codepoint \<Rightarrow> codepoint list"
  alnum :: "codepoint \<Rightarrow> bool"

definition ascii_upper :: "codepoint \<Rightarrow> codepoint" where
  "ascii_upper c = (if 97 \<le> c \<and> c \<le> 122 then c - 32 else c)"

definition ascii_isalnum :: "codepoint \<Rightarrow> bool" where
  "ascii_isalnum c \<longleftrightarrow> (48 \<le> c \<and> c \<le> 57) \<or> (65 \<le> c \<and> c \<le> 90) \<or> (97 \<le> c \<and> c \<le> 122)"

definition char_upper :: "unicode_data \<Rightarrow> codepoint \<Rightarrow> codepoint list" where
  "char_upper U c = (if c < 128 then [ascii_upper c] else upper_full U c)"

definition str_upper :: "unicode_data \<Rightarrow> pystr \<Rightarrow> pystr" where
  "str_upper U s = concat (map (char_upper U) s)"

definition char_isalnum :: "unicode_data \<Rightarrow> codepoint \<Rightarrow> bool" where
  "char_isalnum U c = (if c < 128 then ascii_isalnum c else alnum U c)"

text \<open>
  \<open>s.split("_")\<close> with a one-character separator: every occurrence of the separator
  ends a token, so the empty string gives one empty token and \<open>n\<close> separators give
  \<open>n + 1\<close> tokens. \<open>"_".join(ts)\<close> puts the separator between the tokens.
\<close>

fun split_on :: "codepoint \<Rightarrow> pystr \<Rightarrow> pystr list" where
  "split_on sep [] = [[]]"
| "split_on sep (c # cs) =
     (if c = sep then [] # split_on sep cs
      else (case split_on sep cs of
              [] \<Rightarrow> [[c]]
            | t # ts \<Rightarrow> (c # t) # ts))"

fun join :: "pystr \<Rightarrow> pystr list \<Rightarrow> pystr" where
  "join sep [] = []"
| "join sep [t] = t"
| "join sep (t # u # ts) = t @ sep @ join sep (u # ts)"

section \<open>Name derivation\<close>

definition underscore :: codepoint where
  "underscore = 95"

text \<open>
  The generator expression \<open>"".join(c if c.isalnum() else "_" for c in s)\<close> of
  \<open>secret_name_to_env_var\<close>, applied there to the upper-cased name and to the
  upper-cased prefix.
\<close>

definition clean_chars :: "unicode_data \<Rightarrow> pystr \<Rightarrow> pystr" where
  "clean_chars U s = map (\<lambda>c. if char_isalnum U c then c else underscore) s"

text \<open>
  \<open>"_".join(filter(None, clean_name.split("_")))\<close>: \<open>filter(None, ...)\<close> keeps the
  tokens that are truthy, which for strings are the non-empty ones.
\<close>

definition collapse :: "pystr \<Rightarrow> pystr" where
  "collapse s = join [underscore] (filter (\<lambda>t. t \<noteq> []) (split_on underscore s))"

text \<open>
  \<open>secret_name_to_env_var(secret_name, prefix=None)\<close>. The test \<open>if prefix:\<close> is
  false for \<open>None\<close> and for the empty string.
\<close>

definition secret_name_to_env_var :: "unicode_data \<Rightarrow> pystr \<Rightarrow> pystr option \<Rightarrow> pystr" where
  "secret_name_to_env_var U secret_name prefix =
     (let clean_name = clean_chars U (str_upper U secret_name);
          clean_name = collapse clean_name
      in case prefix of
           None \<Rightarrow> clean_name
         | Some p \<Rightarrow>
             if p \<noteq> [] then
               (let clean_prefix = clean_chars U (str_upper U p)
                in clean_prefix @ [underscore] @ clean_name)
             else clean_name)"

text \<open>
  The part of the Unicode character database for U+0080 to U+00FF, with the two
  upper-case images that leave this range (U+039C for U+00B5, U+0178 for U+00FF). Code
  points outside it are not covered by this excerpt, which leaves them unchanged and not
  alphanumeric; the closed examples below stay inside it.
\<close>

definition latin1_upper :: "codepoint \<Rightarrow> codepoint list" where
  "latin1_upper c =
     (if c = 181 then [924]
      else if c = 223 then [83, 83]
      else if (224 \<le> c \<and> c \<le> 246) \<or> (248 \<le> c \<and> c \<le> 254) then [c - 32]
      else if c = 255 then [376]
      else [c])"

definition latin1_alnum :: "codepoint \<Rightarrow> bool" where
  "latin1_alnum c \<longleftrightarrow>
     c = 170 \<or> c = 178 \<or> c = 179 \<or> c = 181 \<or> c = 185 \<or> c = 186 \<or>
     (188 \<le> c \<and> c \<le> 190) \<or> (192 \<le> c \<and> c \<le> 214) \<or> (216 \<le> c \<and> c \<le> 246) \<or>
     (248 \<le> c \<and> c \<le> 255) \<or> c = 376 \<or> c = 924"

definition latin1 :: unicode_data where
  "latin1 = \<lparr>upper_full = latin1_upper, alnum = latin1_alnum\<rparr>"

text \<open>
  The replacement rule in the words of the specification: a character stays only when it
  is an ASCII letter or an ASCII digit.
\<close>

definition ascii_only_clean :: "pystr \<Rightarrow> pystr" where
  "ascii_only_clean s = map (\<lambda>c. if ascii_isalnum c then c else underscore) s"

section \<open>Exceptions, bytes and JSON values\<close>

text \<open>
  The exception classes that the modelled code and the library calls it makes can raise;
  all of them are subclasses of \<open>Exception\<close>. \<open>JSONDecodeError\<close> and
  \<open>UnicodeDecodeError\<close> are subclasses of \<open>ValueError\<close>, but an \<open>except\<close> clause
  that names \<open>JSONDecodeError\<close> does not catch a plain \<open>ValueError\<close> nor a
  \<open>UnicodeDecodeError\<close>, so the three are kept apart. \<open>OSError\<close> stands for itself
  and its subclasses (\<open>IOError\<close> is the same class).
\<close>

datatype pyexn =
    ValueError | JSONDecodeError | UnicodeDecodeError | KeyError | TypeError
  | AttributeError | OverflowError | OSError | InvalidTag | MarkupError

text \<open>
  A computation that may raise returns \<open>Inl\<close> of the exception; \<open>and_then\<close> runs the
  next statement only when the previous one returned.
\<close>

definition and_then :: "pyexn + 'a \<Rightarrow> ('a \<Rightarrow> pyexn + 'b) \<Rightarrow> pyexn + 'b" where
  "and_then m f = (case m of Inl e \<Rightarrow> Inl e | Inr x \<Rightarrow> f x)"

type_synonym byte = "8 word"

text \<open>
  The values \<open>json.load\<close> and \<open>json.loads\<close> return. A \<open>dict\<close> keeps its items in
  insertion order. No operation of the code looks inside a \<open>float\<close>, so the type of
  floats is left abstract.
\<close>

typedecl pyfloat

datatype json =
    JNull | JBool bool | JInt int | JFloat pyfloat | JStr pystr
  | JList "json list" | JDict "(pystr \<times> json) list"

text \<open>
  \<open>data[k]\<close> with a string \<open>k\<close>: \<open>KeyError\<close> on a dict without the key,
  \<open>TypeError\<close> on every value that is not a dict. \<open>data.get(k, d)\<close>:
  \<open>AttributeError\<close> on every value that is not a dict.
\<close>

fun subscript :: "json \<Rightarrow> pystr \<Rightarrow> pyexn + json" where
  "subscript (JDict kvs) k = (case map_of kvs k of None \<Rightarrow> Inl KeyError | Some v \<Rightarrow> Inr v)"
| "subscript _ k = Inl TypeError"

fun dict_get :: "json \<Rightarrow> pystr \<Rightarrow> json \<Rightarrow> pyexn + json" where
  "dict_get (JDict kvs) k d = (case map_of kvs k of None \<Rightarrow> Inr d | Some v \<Rightarrow> Inr v)"
| "dict_get _ k d = Inl AttributeError"

text \<open>
  \<open>bytes.fromhex\<close>: ASCII whitespace (tab to carriage return, and space) is skipped
  before a pair of hexadecimal digits, of either case; anything else, also a lone last
  digit or a character outside ASCII, raises \<open>ValueError\<close>. An argument that is not a
  string raises \<open>TypeError\<close>.
\<close>

definition is_space :: "codepoint \<Rightarrow> bool" where
  "is_space c \<longleftrightarrow> (9 \<le> c \<and> c \<le> 13) \<or> c = 32"

definition hex_digit :: "codepoint \<Rightarrow> nat option" where
  "hex_digit c =
     (if 48 \<le> c \<and> c \<le> 57 then Some (c - 48)
      else if 97 \<le> c \<and> c \<le> 102 then Some (c - 87)
      else if 65 \<le> c \<and> c \<le> 70 then Some (c - 55)
      else None)"

fun fromhex_str :: "pystr \<Rightarrow> pyexn + byte list" where
  "fromhex_str [] = Inr []"
| "fromhex_str (c # cs) =
     (if is_space c then fromhex_str cs
      else (case hex_digit c of
              None \<Rightarrow> Inl ValueError
            | Some hi \<Rightarrow>
                (case cs of
                   [] \<Rightarrow> Inl ValueError
                 | d # ds \<Rightarrow>
                     (case hex_digit d of
                        None \<Rightarrow> Inl ValueError
                      | Some lo \<Rightarrow>
                          and_then (fromhex_str ds) (\<lambda>bs. Inr (of_nat (hi * 16 + lo) # bs))))))"

fun bytes_fromhex :: "json \<Rightarrow> pyexn + byte list" where
  "bytes_fromhex (JStr s) = fromhex_str s"
| "bytes_fromhex _ = Inl TypeError"

text \<open>
  \<open>bytes(x)\<close>. A list gives its items as bytes, from left to right: an item must be an
  integer (\<open>bool\<close> is one) in \<open>range(0, 256)\<close>, else \<open>ValueError\<close>; any other item
  raises \<open>TypeError\<close>. An integer \<open>n\<close> gives \<open>n\<close> zero bytes, \<open>ValueError\<close> when
  negative and \<open>OverflowError\<close> outside the 64-bit index range (allocation itself is
  taken to succeed). A dict is iterated over its keys, which are strings: only the empty
  dict converts. Strings, floats and \<open>None\<close> raise \<open>TypeError\<close>.
\<close>

fun byte_of_item :: "json \<Rightarrow> pyexn + byte" where
  "byte_of_item (JInt i) = (if 0 \<le> i \<and> i < 256 then Inr (of_int i) else Inl ValueError)"
| "byte_of_item (JBool b) = Inr (if b then 1 else 0)"
| "byte_of_item _ = Inl TypeError"

fun bytes_of_items :: "json list \<Rightarrow> pyexn + byte list" where
  "bytes_of_items [] = Inr []"
| "bytes_of_items (x # xs) =
     and_then (byte_of_item x) (\<lambda>b. and_then (bytes_of_items xs) (\<lambda>bs. Inr (b # bs)))"

definition bytes_of_count :: "int \<Rightarrow> pyexn + byte list" where
  "bytes_of_count n =
     (if n < - (2 ^ 63) \<or> 2 ^ 63 \<le> n then Inl OverflowError
      else if n < 0 then Inl ValueError
      else Inr (replicate (nat n) 0))"

fun bytes_of :: "json \<Rightarrow> pyexn + byte list" where
  "bytes_of (JList xs) = bytes_of_items xs"
| "bytes_of (JInt n) = bytes_of_count n"
| "bytes_of (JBool b) = bytes_of_count (if b then 1 else 0)"
| "bytes_of (JDict kvs) = (if kvs = [] then Inr [] else Inl TypeError)"
| "bytes_of _ = Inl TypeError"

text \<open>
  \<open>b.decode("utf-8")\<close>, strict: \<open>utf8_first\<close> reads one code point and says how many
  continuation bytes it took. Overlong forms, surrogates and values above U+10FFFF raise
  \<open>UnicodeDecodeError\<close>, as truncated and stray bytes do.
\<close>

definition cont :: "byte \<Rightarrow> bool" where
  "cont b \<longleftrightarrow> 128 \<le> unat b \<and> unat b < 192"

definition utf8_first :: "byte \<Rightarrow> byte list \<Rightarrow> (codepoint \<times> nat) option" where
  "utf8_first b bs =
     (let v = unat b in
      if v < 128 then Some (v, 0)
      else if 194 \<le> v \<and> v < 224 then
        (case bs of
           b1 # r \<Rightarrow>
             if cont b1 then Some ((v - 192) * 64 + (unat b1 - 128), 1) else None
         | _ \<Rightarrow> None)
      else if 224 \<le> v \<and> v < 240 then
        (case bs of
           b1 # b2 # r \<Rightarrow>
             (let cp = (v - 224) * 4096 + (unat b1 - 128) * 64 + (unat b2 - 128) in
              if cont b1 \<and> cont b2 \<and> 2048 \<le> cp \<and> \<not> (55296 \<le> cp \<and> cp < 57344)
              then Some (cp, 2) else None)
         | _ \<Rightarrow> None)
      else if 240 \<le> v \<and> v < 245 then
        (case bs of
           b1 # b2 # b3 # r \<Rightarrow>
             (let cp = (v - 240) * 262144 + (unat b1 - 128) * 4096 + (unat b2 - 128) * 64 +
                       (unat b3 - 128) in
              if cont b1 \<and> cont b2 \<and> cont b3 \<and> 65536 \<le> cp \<and> cp < 1114112
              then Some (cp, 3) else None)
         | _ \<Rightarrow> None)
      else None)"

fun utf8_decode :: "byte list \<Rightarrow> pyexn + pystr" where
  "utf8_decode [] = Inr []"
| "utf8_decode (b # bs) =
     (case utf8_first b bs of
        None \<Rightarrow> Inl UnicodeDecodeError
      | Some (cp, k) \<Rightarrow> and_then (utf8_decode (drop k bs)) (\<lambda>s. Inr (cp # s)))"

section \<open>Secret decryption\<close>

text \<open>
  Two library functions are parameters of the model. \<open>json_loads\<close> is \<open>json.loads\<close> on
  a byte string. \<open>gcm_open key nonce aad data\<close> is the AES-GCM computation behind
  \<open>AESGCM.decrypt\<close>: \<open>data\<close> is the ciphertext followed by the 16-byte tag, and the
  answer is the plaintext, or \<open>None\<close> when the tag does not authenticate.
\<close>

record libs =
  json_loads :: "byte list \<Rightarrow> pyexn + json"
  gcm_open :: "byte list \<Rightarrow> byte list \<Rightarrow> byte list \<Rightarrow> byte list \<Rightarrow> byte list option"

text \<open>
  The wrapper of the \<open>cryptography\<close> package (46.0.2 or later, as \<open>setup.py\<close> asks):
  the constructor accepts keys of 128, 192 and 256 bits and raises \<open>ValueError\<close>
  otherwise; \<open>decrypt\<close> raises \<open>ValueError\<close> unless the nonce has 8 to 128 bytes,
  reads \<open>None\<close> as no associated data, and raises \<open>InvalidTag\<close> when authentication
  fails.
\<close>

definition AESGCM :: "byte list \<Rightarrow> pyexn + byte list" where
  "AESGCM key =
     (if length key = 16 \<or> length key = 24 \<or> length key = 32 then Inr key else Inl ValueError)"

definition AESGCM_decrypt ::
  "libs \<Rightarrow> byte list \<Rightarrow> byte list \<Rightarrow> byte list \<Rightarrow> byte list option \<Rightarrow> pyexn + byte list" where
  "AESGCM_decrypt L key nonce data associated_data =
     (let aad = (case associated_data of None \<Rightarrow> [] | Some a \<Rightarrow> a) in
      if length nonce < 8 \<or> 128 < length nonce then Inl ValueError
      else (case gcm_open L key nonce aad data of
              None \<Rightarrow> Inl InvalidTag
            | Some plain \<Rightarrow> Inr plain))"

text \<open>
  \<open>decrypt_secret(hex_encrypted_data, session_key)\<close>, statement by statement. The
  payload is whatever value the session file holds for the secret, so it is a JSON value.
\<close>

definition decrypt_secret :: "libs \<Rightarrow> json \<Rightarrow> byte list \<Rightarrow> pyexn + pystr" where
  "decrypt_secret L hex_encrypted_data key =
     and_then (bytes_fromhex hex_encrypted_data) (\<lambda>serialized_data.
     and_then (json_loads L serialized_data) (\<lambda>encrypted_data.
     and_then (and_then (subscript encrypted_data (lit ''cipher'')) bytes_of) (\<lambda>cipher.
     and_then (and_then (subscript encrypted_data (lit ''nonce'')) bytes_of) (\<lambda>nonce.
     and_then (and_then (subscript encrypted_data (lit ''tag'')) bytes_of) (\<lambda>tag.
     and_then (AESGCM key) (\<lambda>aesgcm.
     and_then (AESGCM_decrypt L aesgcm nonce (cipher @ tag) None) (\<lambda>decrypted.
     utf8_decode decrypted)))))))"

section \<open>Session files and the project context\<close>

text \<open>
  \<open>SessionFile.__init__\<close>: five subscripts in the order of the source, the session key
  decoded from hexadecimal.
\<close>

record session_file =
  session_name :: json
  box_name :: json
  session_key :: "byte list"
  encrypted_secrets :: json
  created_at :: json

definition SessionFile_init :: "json \<Rightarrow> pyexn + session_file" where
  "SessionFile_init data =
     and_then (subscript data (lit ''session_name'')) (\<lambda>sn.
     and_then (subscript data (lit ''box_name'')) (\<lambda>bn.
     and_then (and_then (subscript data (lit ''session_key'')) bytes_fromhex) (\<lambda>sk.
     and_then (subscript data (lit ''encrypted_secrets'')) (\<lambda>es.
     and_then (subscript data (lit ''created_at'')) (\<lambda>ca.
     Inr \<lparr>session_name = sn, box_name = bn, session_key = sk,
          encrypted_secrets = es, created_at = ca\<rparr>)))))"

text \<open>
  The file system maps a path to what is there: nothing, a directory, or a file. A file is
  given by what \<open>open\<close> followed by \<open>json.load\<close> does on it: the parsed value, or the
  exception raised (\<open>OSError\<close> when it cannot be opened, \<open>UnicodeDecodeError\<close> when
  its bytes do not decode, \<open>JSONDecodeError\<close> when its text is not JSON). Opening a
  directory raises \<open>OSError\<close>.
\<close>

datatype node = File "pyexn + json" | Dir

definition read_json :: "node \<Rightarrow> pyexn + json" where
  "read_json n = (case n of Dir \<Rightarrow> Inl OSError | File r \<Rightarrow> r)"

text \<open>\<open>except (json.JSONDecodeError, KeyError, IOError)\<close>.\<close>

definition caught_on_load :: "pyexn \<Rightarrow> bool" where
  "caught_on_load e \<longleftrightarrow> e = JSONDecodeError \<or> e = KeyError \<or> e = OSError"

definition SessionFile_load ::
  "(pystr \<Rightarrow> 'p) \<Rightarrow> ('p \<Rightarrow> node option) \<Rightarrow> pystr \<Rightarrow> pyexn + session_file option" where
  "SessionFile_load session_path fs name =
     (case fs (session_path name) of
        None \<Rightarrow> Inr None
      | Some n \<Rightarrow>
          (case and_then (read_json n) SessionFile_init of
             Inr s \<Rightarrow> Inr (Some s)
           | Inl e \<Rightarrow> if caught_on_load e then Inr None else Inl e))"

text \<open>
  \<open>sorted(sessions, key=lambda s: s.created_at, reverse=True)\<close>: a stable sort, largest
  key first, items with equal keys in their original order. The order \<open>lt\<close> of two JSON
  values is Python's \<open><\<close>, a parameter; it raises \<open>TypeError\<close> on values that do not
  compare. The sort is written as an insertion sort; Python's makes its comparisons in
  another order, which gives the same list whenever \<open>lt\<close> is a strict weak order that
  does not raise.
\<close>

fun insert_desc ::
  "(json \<Rightarrow> json \<Rightarrow> pyexn + bool) \<Rightarrow> session_file \<Rightarrow> session_file list \<Rightarrow> pyexn + session_file list" where
  "insert_desc lt x [] = Inr [x]"
| "insert_desc lt x (y # ys) =
     and_then (lt (created_at x) (created_at y)) (\<lambda>smaller.
       if smaller then and_then (insert_desc lt x ys) (\<lambda>zs. Inr (y # zs))
       else Inr (x # y # ys))"

fun sorted_desc ::
  "(json \<Rightarrow> json \<Rightarrow> pyexn + bool) \<Rightarrow> session_file list \<Rightarrow> pyexn + session_file list" where
  "sorted_desc lt [] = Inr []"
| "sorted_desc lt (x # xs) = and_then (sorted_desc lt xs) (insert_desc lt x)"

text \<open>
  \<open>SessionFile.list_all\<close>. The argument is \<open>None\<close> when the sessions directory does
  not exist, else what \<open>glob("*.json")\<close> yields, in its order. The loop skips a file
  only on the three caught exceptions; any other exception leaves the function.
\<close>

fun collect_sessions :: "node list \<Rightarrow> session_file list \<Rightarrow> pyexn + session_file list" where
  "collect_sessions [] sessions = Inr sessions"
| "collect_sessions (file # files) sessions =
     (case and_then (read_json file) SessionFile_init of
        Inr s \<Rightarrow> collect_sessions files (sessions @ [s])
      | Inl e \<Rightarrow> if caught_on_load e then collect_sessions files sessions else Inl e)"

definition SessionFile_list_all ::
  "(json \<Rightarrow> json \<Rightarrow> pyexn + bool) \<Rightarrow> node list option \<Rightarrow> pyexn + session_file list" where
  "SessionFile_list_all lt sessions_dir =
     (case sessions_dir of
        None \<Rightarrow> Inr []
      | Some files \<Rightarrow> and_then (collect_sessions files []) (sorted_desc lt))"

text \<open>\<open>ProjectContext.__init__\<close> and \<open>ProjectContext.load\<close>.\<close>

record project_context =
  app :: json
  current_session :: json
  available_secrets :: json

definition ProjectContext_init :: "json \<Rightarrow> pyexn + project_context" where
  "ProjectContext_init data =
     and_then (dict_get data (lit ''app'') (JStr (lit ''zap''))) (\<lambda>a.
     and_then (subscript data (lit ''current_session'')) (\<lambda>c.
     and_then (dict_get data (lit ''available_secrets'') (JList [])) (\<lambda>s.
     Inr \<lparr>app = a, current_session = c, available_secrets = s\<rparr>)))"

definition ProjectContext_load :: "'p \<Rightarrow> ('p \<Rightarrow> node option) \<Rightarrow> pyexn + project_context option" where
  "ProjectContext_load zap_file fs =
     (case fs zap_file of
        None \<Rightarrow> Inr None
      | Some n \<Rightarrow>
          (case and_then (read_json n) ProjectContext_init of
             Inr c \<Rightarrow> Inr (Some c)
           | Inl e \<Rightarrow> if caught_on_load e then Inr None else Inl e))"

section \<open>Commands\<close>

text \<open>
  \<open>Path.unlink\<close> removes a file (the process is taken to have the right to) and raises
  \<open>OSError\<close> on a directory or on nothing; with \<open>missing_ok=True\<close> nothing is
  removed when nothing is there.
\<close>

definition unlink :: "'p \<Rightarrow> ('p \<Rightarrow> node option) \<Rightarrow> pyexn + ('p \<Rightarrow> node option)" where
  "unlink p fs =
     (case fs p of
        None \<Rightarrow> Inl OSError
      | Some Dir \<Rightarrow> Inl OSError
      | Some (File r) \<Rightarrow> Inr (fs(p := None)))"

definition unlink_missing_ok :: "'p \<Rightarrow> ('p \<Rightarrow> node option) \<Rightarrow> pyexn + ('p \<Rightarrow> node option)" where
  "unlink_missing_ok p fs = (if fs p = None then Inr fs else unlink p fs)"

text \<open>\<open>v == s\<close> for a JSON value and a string: only an equal string is equal.\<close>

definition eq_str :: "json \<Rightarrow> pystr \<Rightarrow> bool" where
  "eq_str v s = (case v of JStr t \<Rightarrow> t = s | _ \<Rightarrow> False)"

text \<open>
  The lines the commands print that carry data of the session. \<open>console.print\<close> is a
  parameter: it answers \<open>None\<close> when the line is printed and the exception when the
  terminal library raises one (it reads square brackets in the text as markup).
\<close>

datatype line =
    Loaded pystr | Failed pystr pyexn | Stopped pystr | Cleared | NotFound pystr

text \<open>
  \<open>stop(session_name)\<close>. \<open>session_path\<close> is \<open>get_session_file_path\<close>, \<open>zap_file\<close> is
  \<open>zap.json\<close> in the working directory; the two may be the same path. The result is
  the exception that left the command, if one did, and the file system afterwards.
\<close>

definition stop ::
  "(line \<Rightarrow> pyexn option) \<Rightarrow> (pystr \<Rightarrow> 'p) \<Rightarrow> 'p \<Rightarrow> pystr \<Rightarrow> ('p \<Rightarrow> node option) \<Rightarrow>
   pyexn option \<times> ('p \<Rightarrow> node option)" where
  "stop console session_path zap_file name fs =
     (if fs (session_path name) \<noteq> None then
        (case unlink (session_path name) fs of
           Inl e \<Rightarrow> (Some e, fs)
         | Inr fs1 \<Rightarrow>
             (case console (Stopped name) of
                Some e \<Rightarrow> (Some e, fs1)
              | None \<Rightarrow>
                  (case ProjectContext_load zap_file fs1 of
                     Inl e \<Rightarrow> (Some e, fs1)
                   | Inr None \<Rightarrow> (None, fs1)
                   | Inr (Some context) \<Rightarrow>
                       if eq_str (current_session context) name then
                         (case unlink_missing_ok zap_file fs1 of
                            Inl e \<Rightarrow> (Some e, fs1)
                          | Inr fs2 \<Rightarrow> (console Cleared, fs2))
                       else (None, fs1))))
      else (console (NotFound name), fs))"

text \<open>
  The loop of \<open>run\<close> that decrypts and injects the secrets. The state is the environment
  under construction and the lines printed so far. \<open>inject_one\<close> is the body of the
  \<open>try\<close>: it answers the exception caught by \<open>except Exception\<close>, if any, and the
  state reached. The handler prints the failure line; an exception raised there leaves
  the loop.
\<close>

type_synonym environ = "pystr \<Rightarrow> pystr option"

definition inject_one ::
  "(line \<Rightarrow> pyexn option) \<Rightarrow> libs \<Rightarrow> unicode_data \<Rightarrow> byte list \<Rightarrow> pystr option \<Rightarrow> bool \<Rightarrow>
   pystr \<Rightarrow> json \<Rightarrow> environ \<times> line list \<Rightarrow> pyexn option \<times> environ \<times> line list" where
  "inject_one console L U key prefix verbose secret_name hex_encrypted st =
     (case decrypt_secret L hex_encrypted key of
        Inl e \<Rightarrow> (Some e, st)
      | Inr decrypted_value \<Rightarrow>
          (let env_var_name = secret_name_to_env_var U secret_name prefix;
               env = (fst st)(env_var_name \<mapsto> decrypted_value)
           in if verbose then
                (case console (Loaded env_var_name) of
                   Some e \<Rightarrow> (Some e, env, snd st)
                 | None \<Rightarrow> (None, env, snd st @ [Loaded env_var_name]))
              else (None, env, snd st)))"

fun inject_secrets ::
  "(line \<Rightarrow> pyexn option) \<Rightarrow> libs \<Rightarrow> unicode_data \<Rightarrow> byte list \<Rightarrow> pystr option \<Rightarrow> bool \<Rightarrow>
   (pystr \<times> json) list \<Rightarrow> environ \<times> line list \<Rightarrow> pyexn + environ \<times> line list" where
  "inject_secrets console L U key prefix verbose [] st = Inr st"
| "inject_secrets console L U key prefix verbose ((secret_name, hex_encrypted) # rest) st =
     (case inject_one console L U key prefix verbose secret_name hex_encrypted st of
        (None, st1) \<Rightarrow> inject_secrets console L U key prefix verbose rest st1
      | (Some e, st1) \<Rightarrow>
          (case console (Failed secret_name e) of
             Some e' \<Rightarrow> Inl e'
           | None \<Rightarrow>
               inject_secrets console L U key prefix verbose rest
                 (fst st1, snd st1 @ [Failed secret_name e])))"

text \<open>
  The loop on a session record: \<open>encrypted_secrets.items()\<close> raises
  \<open>AttributeError\<close> when the value is not a dict.
\<close>

definition run_inject ::
  "(line \<Rightarrow> pyexn option) \<Rightarrow> libs \<Rightarrow> unicode_data \<Rightarrow> pystr option \<Rightarrow> bool \<Rightarrow>
   session_file \<Rightarrow> environ \<Rightarrow> pyexn + environ \<times> line list" where
  "run_inject console L U prefix verbose sf env =
     (case encrypted_secrets sf of
        JDict items \<Rightarrow> inject_secrets console L U (session_key sf) prefix verbose items (env, [])
      | _ \<Rightarrow> Inl AttributeError)"

section \<open>Stages of decryption\<close>

text \<open>
  The statements of \<open>decrypt_secret\<close> grouped into the stages after hex decoding:
  \<open>parse_fields\<close> is \<open>json.loads\<close> and the three \<open>bytes(...)\<close> conversions (lines
  155 to 160), \<open>gcm_stage\<close> is the construction of the cipher and the call of
  \<open>decrypt\<close> (lines 163 to 165).
\<close>

definition parse_fields :: "libs \<Rightarrow> byte list \<Rightarrow> pyexn + byte list \<times> byte list \<times> byte list" where
  "parse_fields L serialized_data =
     and_then (json_loads L serialized_data) (\<lambda>encrypted_data.
     and_then (and_then (subscript encrypted_data (lit ''cipher'')) bytes_of) (\<lambda>cipher.
     and_then (and_then (subscript encrypted_data (lit ''nonce'')) bytes_of) (\<lambda>nonce.
     and_then (and_then (subscript encrypted_data (lit ''tag'')) bytes_of) (\<lambda>tag.
     Inr (cipher, nonce, tag)))))"

definition gcm_stage :: "libs \<Rightarrow> byte list \<Rightarrow> byte list \<Rightarrow> byte list \<Rightarrow> pyexn + byte list" where
  "gcm_stage L key nonce data =
     and_then (AESGCM key) (\<lambda>aesgcm. AESGCM_decrypt L aesgcm nonce data None)"

section \<open>Concrete payloads\<close>

text \<open>
  \<open>bytes.hex\<close>: two lower-case hexadecimal digits for each byte.
\<close>

definition hexchar :: "nat \<Rightarrow> codepoint" where
  "hexchar n = (if n < 10 then 48 + n else 87 + n)"

definition hexlify :: "byte list \<Rightarrow> pystr" where
  "hexlify bs = concat (map (\<lambda>b. [hexchar (unat b div 16), hexchar (unat b mod 16)]) bs)"

text \<open>
  Two secrets sealed with AES-256-GCM under the all-zero 32-byte key and the all-zero
  12-byte nonce, with no associated data: \<open>hunter2\<close> and \<open>s3cret\<close>. Each document is
  the serialized structure whose hex encoding is the payload stored in a session file;
  each object is what \<open>json.loads\<close> returns on the document. A third document has the
  fields of the first with a nonce of four bytes.
\<close>

definition zero_key :: "byte list" where
  "zero_key = [0, 0, 0, 0, 0, 0, 0, 0, 0, 0, 0, 0, 0, 0, 0, 0, 0, 0, 0, 0, 0, 0, 0, 0, 0, 0, 0, 0, 0, 0, 0, 0]"

definition zero_nonce :: "byte list" where
  "zero_nonce = [0, 0, 0, 0, 0, 0, 0, 0, 0, 0, 0, 0]"

definition hunter2_doc :: "byte list" where
  \<open>hunter2_doc = map of_char ''{"cipher":[166,210,46,73,40,18,89],"nonce":[0,0,0,0,0,0,0,0,0,0,0,0],"tag":[139,112,162,248,163,186,236,66,88,206,92,105,208,252,170,8]}''\<close>

definition hunter2_obj :: json where
  "hunter2_obj = JDict
     [(lit ''cipher'', JList (map JInt [166, 210, 46, 73, 40, 18, 89])),
      (lit ''nonce'', JList (map JInt [0, 0, 0, 0, 0, 0, 0, 0, 0, 0, 0, 0])),
      (lit ''tag'', JList (map JInt
         [139, 112, 162, 248, 163, 186, 236, 66, 88, 206, 92, 105, 208, 252, 170, 8]))]"

definition s3cret_doc :: "byte list" where
  \<open>s3cret_doc = map of_char ''{"cipher":[189,148,35,79,40,20],"nonce":[0,0,0,0,0,0,0,0,0,0,0,0],"tag":[243,23,16,37,81,69,233,185,173,187,249,1,11,109,130,23]}''\<close>

definition s3cret_obj :: json where
  "s3cret_obj = JDict
     [(lit ''cipher'', JList (map JInt [189, 148, 35, 79, 40, 20])),
      (lit ''nonce'', JList (map JInt [0, 0, 0, 0, 0, 0, 0, 0, 0, 0, 0, 0])),
      (lit ''tag'', JList (map JInt
         [243, 23, 16, 37, 81, 69, 233, 185, 173, 187, 249, 1, 11, 109, 130, 23]))]"

definition short_nonce_doc :: "byte list" where
  \<open>short_nonce_doc = map of_char ''{"cipher":[166,210,46,73,40,18,89],"nonce":[0,0,0,0],"tag":[139,112,162,248,163,186,236,66,88,206,92,105,208,252,170,8]}''\<close>

definition short_nonce_obj :: json where
  "short_nonce_obj = JDict
     [(lit ''cipher'', JList (map JInt [166, 210, 46, 73, 40, 18, 89])),
      (lit ''nonce'', JList (map JInt [0, 0, 0, 0])),
      (lit ''tag'', JList (map JInt
         [139, 112, 162, 248, 163, 186, 236, 66, 88, 206, 92, 105, 208, 252, 170, 8]))]"

text \<open>
  The two libraries on these inputs: \<open>fixture_loads\<close> is \<open>json.loads\<close> on the three
  documents, \<open>fixture_open\<close> is AES-256-GCM decryption under the zero key and nonce on
  the two sealed secrets. Other arguments are outside these excerpts, which reject them;
  the closed examples below call them on the listed arguments only.
\<close>

definition fixture_loads :: "byte list \<Rightarrow> pyexn + json" where
  "fixture_loads b =
     (if b = hunter2_doc then Inr hunter2_obj
      else if b = s3cret_doc then Inr s3cret_obj
      else if b = short_nonce_doc then Inr short_nonce_obj
      else Inl JSONDecodeError)"

definition fixture_open ::
  "byte list \<Rightarrow> byte list \<Rightarrow> byte list \<Rightarrow> byte list \<Rightarrow> byte list option" where
  "fixture_open key nonce aad data =
     (if key = zero_key \<and> nonce = zero_nonce \<and> aad = [] then
        (if data = [166, 210, 46, 73, 40, 18, 89,
                    139, 112, 162, 248, 163, 186, 236, 66, 88, 206, 92, 105, 208, 252, 170, 8]
         then Some [104, 117, 110, 116, 101, 114, 50]
         else if data = [189, 148, 35, 79, 40, 20,
                    243, 23, 16, 37, 81, 69, 233, 185, 173, 187, 249, 1, 11, 109, 130, 23]
         then Some [115, 51, 99, 114, 101, 116]
         else None)
      else None)"

definition fixture :: libs where
  "fixture = \<lparr>json_loads = fixture_loads, gcm_open = fixture_open\<rparr>"

text \<open>A console that prints every line.\<close>

definition quiet_console :: "line \<Rightarrow> pyexn option" where
  "quiet_console ln = None"

text \<open>
  Two session documents, as \<open>json.load\<close> returns them: a well-formed one, and one whose
  \<open>session_key\<close> is the string \<open>zz\<close>.
\<close>

definition good_session :: json where
  "good_session = JDict
     [(lit ''session_name'', JStr (lit ''dev'')),
      (lit ''box_name'', JStr (lit ''work'')),
      (lit ''session_key'', JStr (lit ''00ff'')),
      (lit ''encrypted_secrets'', JDict []),
      (lit ''created_at'', JStr (lit ''2024-01-01T00:00:00Z''))]"

definition bad_key_session :: json where
  "bad_key_session = JDict
     [(lit ''session_name'', JStr (lit ''old'')),
      (lit ''box_name'', JStr (lit ''work'')),
      (lit ''session_key'', JStr (lit ''zz'')),
      (lit ''encrypted_secrets'', JDict []),
      (lit ''created_at'', JStr (lit ''2023-01-01T00:00:00Z''))]"

text \<open>
  A working directory bound to the session \<open>dev\<close>: paths are strings,
  \<open>example_session_path\<close> puts a session under \<open>sessions/\<close>.
\<close>

definition example_session_path :: "pystr \<Rightarrow> pystr" where
  "example_session_path name = lit ''sessions/'' @ name @ lit ''.json''"

definition example_fs :: "pystr \<Rightarrow> node option" where
  "example_fs =
     [lit ''zap.json'' \<mapsto> File (Inr (JDict [(lit ''current_session'', JStr (lit ''dev''))])),
      lit ''sessions/dev.json'' \<mapsto> File (Inr good_session)]"

section \<open>Encryption, as the counterpart of decryption\<close>

text \<open>
  \<open>s.encode("utf-8")\<close> on a string of Unicode scalar values (code points up to
  U+10FFFF that are not surrogates); \<open>encode\<close> raises on other strings, which this
  function is not meant for.
\<close>

definition scalar :: "codepoint \<Rightarrow> bool" where
  "scalar c \<longleftrightarrow> c < 1114112 \<and> \<not> (55296 \<le> c \<and> c < 57344)"

definition utf8_encode_char :: "codepoint \<Rightarrow> byte list" where
  "utf8_encode_char c =
     (if c < 128 then [of_nat c]
      else if c < 2048 then [of_nat (192 + c div 64), of_nat (128 + c mod 64)]
      else if c < 65536 then
        [of_nat (224 + c div 4096), of_nat (128 + c div 64 mod 64), of_nat (128 + c mod 64)]
      else
        [of_nat (240 + c div 262144), of_nat (128 + c div 4096 mod 64),
         of_nat (128 + c div 64 mod 64), of_nat (128 + c mod 64)])"

definition utf8_encode :: "pystr \<Rightarrow> byte list" where
  "utf8_encode s = concat (map utf8_encode_char s)"

text \<open>
  Modelled from the spec: the encryption routine, which is not in the repository (the
  desktop application creates the sessions; the specification needs the routine for test
  fixtures only). It seals the UTF-8 bytes of the plaintext with AES-256-GCM under the
  key and a nonce, without associated data, splits the sealed bytes into the ciphertext
  and the 16-byte tag, serializes the structure with the byte-array fields \<open>cipher\<close>,
  \<open>nonce\<close> and \<open>tag\<close>, and hex-encodes it. The AES-GCM sealing \<open>gcm_seal\<close>
  (ciphertext followed by tag) and the serializer \<open>json_dumps\<close> are parameters.
\<close>

record sealer =
  gcm_seal :: "byte list \<Rightarrow> byte list \<Rightarrow> byte list \<Rightarrow> byte list \<Rightarrow> byte list"
  json_dumps :: "json \<Rightarrow> byte list"

definition json_bytes :: "byte list \<Rightarrow> json" where
  "json_bytes bs = JList (map (\<lambda>b. JInt (uint b)) bs)"

definition sealed_structure :: "sealer \<Rightarrow> byte list \<Rightarrow> pystr \<Rightarrow> byte list \<Rightarrow> json" where
  "sealed_structure W nonce plaintext key =
     (let sealed = gcm_seal W key nonce [] (utf8_encode plaintext);
          cipher = take (length sealed - 16) sealed;
          tag = drop (length sealed - 16) sealed
      in JDict [(lit ''cipher'', json_bytes cipher), (lit ''nonce'', json_bytes nonce),
                (lit ''tag'', json_bytes tag)])"

definition encrypt :: "sealer \<Rightarrow> byte list \<Rightarrow> pystr \<Rightarrow> byte list \<Rightarrow> json" where
  "encrypt W nonce plaintext key =
     JStr (hexlify (json_dumps W (sealed_structure W nonce plaintext key)))"

text \<open>
  The sealing and the serializer on the secret \<open>hunter2\<close>: AES-256-GCM under the zero
  key and nonce, and the compact serialization of its structure. Other arguments are
  outside these excerpts.
\<close>

definition fixture_seal :: "byte list \<Rightarrow> byte list \<Rightarrow> byte list \<Rightarrow> byte list \<Rightarrow> byte list" where
  "fixture_seal key nonce aad plain =
     (if key = zero_key \<and> nonce = zero_nonce \<and> aad = [] \<and>
         plain = [104, 117, 110, 116, 101, 114, 50]
      then [166, 210, 46, 73, 40, 18, 89,
            139, 112, 162, 248, 163, 186, 236, 66, 88, 206, 92, 105, 208, 252, 170, 8]
      else [])"

definition fixture_dumps :: "json \<Rightarrow> byte list" where
  "fixture_dumps obj = (if obj = hunter2_obj then hunter2_doc else [])"

definition fixture_sealer :: sealer where
  "fixture_sealer = \<lparr>gcm_seal = fixture_seal, json_dumps = fixture_dumps\<rparr>"

section \<open>Reading the result of a run\<close>

text \<open>
  The value an environment that the loop produced binds to a name, and the lines it
  printed; nothing when the loop was left by an exception.
\<close>

definition injected :: "pyexn + environ \<times> line list \<Rightarrow> pystr \<Rightarrow> pystr option" where
  "injected r k = (case r of Inl e \<Rightarrow> None | Inr st \<Rightarrow> fst st k)"

definition printed :: "pyexn + environ \<times> line list \<Rightarrow> line list" where
  "printed r = (case r of Inl e \<Rightarrow> [] | Inr st \<Rightarrow> snd st)"

text \<open>
  A session record under the zero key with the given secrets, and two lists of secrets:
  one where two names derive the same variable and both payloads decrypt, one with a
  payload that is not hexadecimal between two payloads that decrypt.
\<close>

definition session_of :: "(pystr \<times> json) list \<Rightarrow> session_file" where
  "session_of items =
     \<lparr>session_name = JStr (lit ''dev''), box_name = JStr (lit ''work''),
      session_key = zero_key, encrypted_secrets = JDict items,
      created_at = JStr (lit ''2024-01-01T00:00:00Z'')\<rparr>"

definition collision_items :: "(pystr \<times> json) list" where
  "collision_items =
     [(lit ''a-b'', JStr (hexlify hunter2_doc)), (lit ''a_b'', JStr (hexlify s3cret_doc))]"

definition partial_items :: "(pystr \<times> json) list" where
  "partial_items =
     [(lit ''db-pass'', JStr (hexlify hunter2_doc)), (lit ''broken'', JStr (lit ''zz'')),
      (lit ''api key'', JStr (hexlify s3cret_doc))]"

section \<open>Names that read as markup\<close>

text \<open>
  The terminal library reads square brackets in a printed line as markup, and the
  commands put session and secret names into their lines as they are. In the name
  \<open>[/x]\<close> it finds a closing tag that no opening tag matches and raises
  \<open>MarkupError\<close>. \<open>markup_console\<close> is the library on the lines that carry this
  name and on the lines without a name; other names are outside this excerpt, which
  prints them.
\<close>

definition markup_console :: "line \<Rightarrow> pyexn option" where
  "markup_console ln =
     (case ln of
        Stopped n \<Rightarrow> if n = lit ''[/x]'' then Some MarkupError else None
      | NotFound n \<Rightarrow> if n = lit ''[/x]'' then Some MarkupError else None
      | Failed n e \<Rightarrow> if n = lit ''[/x]'' then Some MarkupError else None
      | Loaded n \<Rightarrow> None
      | Cleared \<Rightarrow> None)"

text \<open>
  A working directory bound to the session \<open>[/x]\<close>, whose session file is present, and
  a list of secrets where the secret \<open>[/x]\<close> has a payload that is not hexadecimal and
  the secret \<open>db-pass\<close> has one that decrypts.
\<close>

definition markup_fs :: "pystr \<Rightarrow> node option" where
  "markup_fs =
     [lit ''zap.json'' \<mapsto> File (Inr (JDict [(lit ''current_session'', JStr (lit ''[/x]''))])),
      lit ''sessions/[/x].json'' \<mapsto> File (Inr good_session)]"

definition markup_items :: "(pystr \<times> json) list" where
  "markup_items =
     [(lit ''[/x]'', JStr (lit ''zz'')), (lit ''db-pass'', JStr (hexlify hunter2_doc))]"

section \<open>Properties of name derivation\<close>

lemma split_on_no_sep: "sep \<notin> set s \<Longrightarrow> split_on sep s = [s]"
  by (induction s) auto

lemma collapse_no_underscore: "underscore \<notin> set s \<Longrightarrow> collapse s = s"
  by (cases "s = []") (simp_all add: collapse_def split_on_no_sep)

lemmas derive_defs =
  secret_name_to_env_var_def clean_chars_def str_upper_def char_upper_def char_isalnum_def
  ascii_upper_def ascii_isalnum_def collapse_def underscore_def lit_def

text \<open>
  C8. The three examples of the specification: \<open>derive("db password")\<close> is
  \<open>"DB_PASSWORD"\<close>, \<open>derive("api--key!!")\<close> is \<open>"API_KEY"\<close>, and
  \<open>derive("DB_PASSWORD", prefix="app")\<close> is \<open>"APP_DB_PASSWORD"\<close>, whatever the
  Unicode database says outside ASCII.
\<close>

theorem derive_examples:
  "secret_name_to_env_var U (lit ''db password'') None = lit ''DB_PASSWORD'' \<and>
   secret_name_to_env_var U (lit ''api--key!!'') None = lit ''API_KEY'' \<and>
   secret_name_to_env_var U (lit ''DB_PASSWORD'') (Some (lit ''app'')) = lit ''APP_DB_PASSWORD''"
  by (simp add: derive_defs)

text \<open>
  C1, as the specification states it, fails: the prefix is upper-cased and its
  non-alphanumeric characters are replaced, but its underscores are not collapsed. With
  the name \<open>x\<close> and the prefix \<open>a--b\<close> the code gives \<open>A__B_X\<close>, where transforming
  the prefix like the name would give \<open>A_B_X\<close>.
\<close>

theorem prefix_collapse_counterexample:
  "secret_name_to_env_var latin1 (lit ''x'') (Some (lit ''a--b'')) = lit ''A__B_X'' \<and>
   secret_name_to_env_var latin1 (lit ''a--b'') None @ [underscore] @
     secret_name_to_env_var latin1 (lit ''x'') None = lit ''A_B_X''"
  by (simp add: derive_defs)

text \<open>
  C1, amended. For every secret name and every non-empty prefix, the result is the
  prefix upper-cased with its non-alphanumeric characters replaced by underscores (runs
  of underscores and leading or trailing underscores kept as they are), then exactly one
  underscore, then the transformed name. When that prefix has no underscore at all, this
  is the transformation of the name applied to the prefix.
\<close>

theorem prefix_cleaned_not_collapsed:
  assumes "p \<noteq> []"
  shows "secret_name_to_env_var U n (Some p) =
           clean_chars U (str_upper U p) @ [underscore] @ secret_name_to_env_var U n None \<and>
         (underscore \<notin> set (clean_chars U (str_upper U p)) \<longrightarrow>
          secret_name_to_env_var U n (Some p) =
            secret_name_to_env_var U p None @ [underscore] @ secret_name_to_env_var U n None)"
  using assms by (simp add: secret_name_to_env_var_def Let_def collapse_no_underscore)

theorem prefix_cleaned_not_collapsed_witness:
  "lit ''my-app'' \<noteq> [] \<and>
   secret_name_to_env_var latin1 (lit ''db.password'') (Some (lit ''my-app'')) =
     clean_chars latin1 (str_upper latin1 (lit ''my-app'')) @ [underscore] @
       secret_name_to_env_var latin1 (lit ''db.password'') None \<and>
   lit ''app'' \<noteq> [] \<and>
   underscore \<notin> set (clean_chars latin1 (str_upper latin1 (lit ''app''))) \<and>
   secret_name_to_env_var latin1 (lit ''db.password'') (Some (lit ''app'')) =
     secret_name_to_env_var latin1 (lit ''app'') None @ [underscore] @
       secret_name_to_env_var latin1 (lit ''db.password'') None"
proof -
  have a: "lit ''my-app'' \<noteq> []" and b: "lit ''app'' \<noteq> []"
    by (simp_all add: lit_def)
  have c: "underscore \<notin> set (clean_chars latin1 (str_upper latin1 (lit ''app'')))"
    by (simp add: derive_defs)
  show ?thesis
    using a b c
      prefix_cleaned_not_collapsed [OF a, of latin1 "lit ''db.password''"]
      prefix_cleaned_not_collapsed [OF b, of latin1 "lit ''db.password''"]
    by blast
qed

text \<open>
  C2, as the specification states it, fails: \<open>isalnum\<close> follows Unicode, so a letter
  outside ASCII is kept. The name U+00E9 (e with acute) is upper-cased to U+00C9, which
  is not an ASCII letter or digit and is nevertheless kept: the derived name is U+00C9,
  where the ASCII-only rule gives an underscore.
\<close>

theorem unicode_letter_kept_counterexample:
  "secret_name_to_env_var latin1 [233] None = [201] \<and> \<not> ascii_isalnum 201 \<and>
   clean_chars latin1 (str_upper latin1 [233]) = [201] \<and>
   ascii_only_clean (str_upper latin1 [233]) = [underscore]"
  by (simp add: derive_defs latin1_def latin1_upper_def latin1_alnum_def ascii_only_clean_def)

text \<open>
  C2, amended. For every input string, the derived name is the upper-cased name in which
  every character for which \<open>isalnum\<close> is false is replaced by an underscore and
  every other character is kept, collapsed afterwards: an ASCII character is kept exactly
  when it is an ASCII letter or digit, a character outside ASCII exactly when the Unicode
  database classes it as alphanumeric.
\<close>

theorem derive_replaces_by_isalnum:
  "secret_name_to_env_var U name None =
     collapse
       (map (\<lambda>c. if (c < 128 \<and> ascii_isalnum c) \<or> (128 \<le> c \<and> alnum U c) then c else underscore)
          (str_upper U name))"
proof -
  have "clean_chars U s =
      map (\<lambda>c. if (c < 128 \<and> ascii_isalnum c) \<or> (128 \<le> c \<and> alnum U c) then c else underscore) s"
    for s
    by (auto simp: clean_chars_def char_isalnum_def)
  then show ?thesis
    by (simp add: secret_name_to_env_var_def)
qed

section \<open>Properties of decryption\<close>

lemma and_then_Inr: "and_then m f = Inr y \<longleftrightarrow> (\<exists>x. m = Inr x \<and> f x = Inr y)"
  by (cases m) (simp_all add: and_then_def)

lemma decrypt_secret_stages:
  "decrypt_secret L p key =
     and_then (bytes_fromhex p) (\<lambda>ser.
     and_then (parse_fields L ser) (\<lambda>(c, n, t).
     and_then (gcm_stage L key n (c @ t)) utf8_decode))"
  by (simp add: decrypt_secret_def parse_fields_def gcm_stage_def and_then_def split: sum.splits)

lemma gcm_stage_cases:
  "gcm_stage L key n d =
     (if \<not> (length key = 16 \<or> length key = 24 \<or> length key = 32) then Inl ValueError
      else if length n < 8 \<or> 128 < length n then Inl ValueError
      else case gcm_open L key n [] d of None \<Rightarrow> Inl InvalidTag | Some pt \<Rightarrow> Inr pt)"
  by (simp add: gcm_stage_def AESGCM_def AESGCM_decrypt_def and_then_def)

lemma decrypt_secret_Inr:
  "decrypt_secret L (JStr payload) key = Inr s \<longleftrightarrow>
     (\<exists>serialized obj cipher nonce tag plain.
        fromhex_str payload = Inr serialized \<and>
        json_loads L serialized = Inr obj \<and>
        and_then (subscript obj (lit ''cipher'')) bytes_of = Inr cipher \<and>
        and_then (subscript obj (lit ''nonce'')) bytes_of = Inr nonce \<and>
        and_then (subscript obj (lit ''tag'')) bytes_of = Inr tag \<and>
        and_then (AESGCM key) (\<lambda>a. AESGCM_decrypt L a nonce (cipher @ tag) None) = Inr plain \<and>
        utf8_decode plain = Inr s)"
  unfolding decrypt_secret_def by (simp add: and_then_Inr) blast

lemma hex_digit_hexchar: "n < 16 \<Longrightarrow> hex_digit (hexchar n) = Some n"
  by (auto simp: hex_digit_def hexchar_def)

lemma not_space_hexchar: "n < 16 \<Longrightarrow> \<not> is_space (hexchar n)"
  by (auto simp: is_space_def hexchar_def)

lemma byte_div_mod: "of_nat (unat b div 16 * 16 + unat b mod 16) = (b :: byte)"
  by simp

lemma fromhex_hexlify: "fromhex_str (hexlify bs) = Inr bs"
proof (induction bs)
  case Nil
  show ?case by (simp add: hexlify_def)
next
  case (Cons b bs)
  have "unat b < 256"
    using unsigned_less [of b] by simp
  then have lt: "unat b div 16 < 16"
    by (simp add: less_mult_imp_div_less)
  have "hexlify (b # bs) = hexchar (unat b div 16) # hexchar (unat b mod 16) # hexlify bs"
    by (simp add: hexlify_def)
  then show ?case
    using Cons lt
    by (simp add: not_space_hexchar hex_digit_hexchar and_then_def byte_div_mod)
qed

lemma hunter2_parses:
  "parse_fields fixture hunter2_doc =
     Inr ([166, 210, 46, 73, 40, 18, 89], zero_nonce,
          [139, 112, 162, 248, 163, 186, 236, 66, 88, 206, 92, 105, 208, 252, 170, 8])"
  by (simp add: parse_fields_def fixture_def fixture_loads_def hunter2_obj_def lit_def
      and_then_def zero_nonce_def)

lemma short_nonce_parses:
  "parse_fields fixture short_nonce_doc =
     Inr ([166, 210, 46, 73, 40, 18, 89], [0, 0, 0, 0],
          [139, 112, 162, 248, 163, 186, 236, 66, 88, 206, 92, 105, 208, 252, 170, 8])"
  apply (simp add: parse_fields_def fixture_def fixture_loads_def)
  apply (simp add: hunter2_doc_def s3cret_doc_def short_nonce_doc_def)
  apply (simp add: short_nonce_obj_def lit_def and_then_def)
  done

lemma s3cret_parses:
  "parse_fields fixture s3cret_doc =
     Inr ([189, 148, 35, 79, 40, 20], zero_nonce,
          [243, 23, 16, 37, 81, 69, 233, 185, 173, 187, 249, 1, 11, 109, 130, 23])"
  apply (simp add: parse_fields_def fixture_def fixture_loads_def)
  apply (simp add: hunter2_doc_def s3cret_doc_def)
  apply (simp add: s3cret_obj_def lit_def and_then_def zero_nonce_def)
  done

lemma hunter2_decrypts:
  "decrypt_secret fixture (JStr (hexlify hunter2_doc)) zero_key = Inr (lit ''hunter2'')"
  apply (simp add: decrypt_secret_stages fromhex_hexlify hunter2_parses and_then_def)
  apply (simp add: gcm_stage_cases fixture_def fixture_open_def zero_key_def zero_nonce_def
      and_then_def utf8_first_def lit_def)
  done

lemma s3cret_decrypts:
  "decrypt_secret fixture (JStr (hexlify s3cret_doc)) zero_key = Inr (lit ''s3cret'')"
  apply (simp add: decrypt_secret_stages fromhex_hexlify s3cret_parses and_then_def)
  apply (simp add: gcm_stage_cases fixture_def fixture_open_def zero_key_def zero_nonce_def
      and_then_def utf8_first_def lit_def)
  done

text \<open>
  C3, as the specification states it, fails: the AES-GCM wrapper refuses a nonce that is
  not 8 to 128 bytes long, and a key that is not 16, 24 or 32 bytes long, with
  \<open>ValueError\<close> before any authentication check. The payload of the third document
  decodes from hex and parses into its three fields, and fails under the 32-byte zero key
  on its four-byte nonce; the payload of \<open>hunter2\<close>, which decrypts under the zero key,
  fails under a five-byte key in the constructor.
\<close>

theorem decrypt_fails_before_authentication_counterexample:
  "decrypt_secret fixture (JStr (hexlify short_nonce_doc)) zero_key = Inl ValueError \<and>
   fromhex_str (hexlify short_nonce_doc) = Inr short_nonce_doc \<and>
   parse_fields fixture short_nonce_doc =
     Inr ([166, 210, 46, 73, 40, 18, 89], [0, 0, 0, 0],
          [139, 112, 162, 248, 163, 186, 236, 66, 88, 206, 92, 105, 208, 252, 170, 8]) \<and>
   length zero_key = 32 \<and>
   decrypt_secret fixture (JStr (hexlify hunter2_doc)) [1, 2, 3, 4, 5] = Inl ValueError \<and>
   AESGCM [1, 2, 3, 4, 5] = Inl ValueError \<and>
   decrypt_secret fixture (JStr (hexlify hunter2_doc)) zero_key = Inr (lit ''hunter2'')"
  apply (simp add: decrypt_secret_stages fromhex_hexlify short_nonce_parses hunter2_parses
      and_then_def)
  apply (simp add: gcm_stage_cases AESGCM_def fixture_def fixture_open_def zero_key_def
      zero_nonce_def and_then_def utf8_first_def lit_def)
  done

text \<open>
  C3, amended. Given a payload string and a key, \<open>decrypt_secret\<close> fails exactly when
  the hex decoding of the payload fails, or the decoded bytes do not parse into the
  fields \<open>cipher\<close>, \<open>nonce\<close> and \<open>tag\<close> as bytes, or the AES-GCM stage fails, or
  the decrypted bytes are not valid UTF-8; in every other case it returns the decoded
  plaintext. The AES-GCM stage fails exactly when the key is not 16, 24 or 32 bytes
  long, or the nonce is not 8 to 128 bytes long, or the authentication check fails.
\<close>

theorem decrypt_fails_iff_stage_fails:
  "((\<exists>e. decrypt_secret L (JStr payload) key = Inl e) \<longleftrightarrow>
      (\<exists>e. fromhex_str payload = Inl e) \<or>
      (\<exists>ser e. fromhex_str payload = Inr ser \<and> parse_fields L ser = Inl e) \<or>
      (\<exists>ser c n t e. fromhex_str payload = Inr ser \<and> parse_fields L ser = Inr (c, n, t) \<and>
         gcm_stage L key n (c @ t) = Inl e) \<or>
      (\<exists>ser c n t pt e. fromhex_str payload = Inr ser \<and> parse_fields L ser = Inr (c, n, t) \<and>
         gcm_stage L key n (c @ t) = Inr pt \<and> utf8_decode pt = Inl e)) \<and>
   (decrypt_secret L (JStr payload) key = Inr s \<longleftrightarrow>
      (\<exists>ser c n t pt. fromhex_str payload = Inr ser \<and> parse_fields L ser = Inr (c, n, t) \<and>
         gcm_stage L key n (c @ t) = Inr pt \<and> utf8_decode pt = Inr s)) \<and>
   ((\<exists>e. gcm_stage L key n' d = Inl e) \<longleftrightarrow>
      length key \<noteq> 16 \<and> length key \<noteq> 24 \<and> length key \<noteq> 32 \<or>
      length n' < 8 \<or> 128 < length n' \<or> gcm_open L key n' [] d = None)"
proof (intro conjI)
  show "(\<exists>e. decrypt_secret L (JStr payload) key = Inl e) \<longleftrightarrow>
      (\<exists>e. fromhex_str payload = Inl e) \<or>
      (\<exists>ser e. fromhex_str payload = Inr ser \<and> parse_fields L ser = Inl e) \<or>
      (\<exists>ser c n t e. fromhex_str payload = Inr ser \<and> parse_fields L ser = Inr (c, n, t) \<and>
         gcm_stage L key n (c @ t) = Inl e) \<or>
      (\<exists>ser c n t pt e. fromhex_str payload = Inr ser \<and> parse_fields L ser = Inr (c, n, t) \<and>
         gcm_stage L key n (c @ t) = Inr pt \<and> utf8_decode pt = Inl e)"
    by (auto simp: decrypt_secret_stages and_then_def split: sum.splits)
  show "decrypt_secret L (JStr payload) key = Inr s \<longleftrightarrow>
      (\<exists>ser c n t pt. fromhex_str payload = Inr ser \<and> parse_fields L ser = Inr (c, n, t) \<and>
         gcm_stage L key n (c @ t) = Inr pt \<and> utf8_decode pt = Inr s)"
    by (auto simp: decrypt_secret_stages and_then_def split: sum.splits)
  show "(\<exists>e. gcm_stage L key n' d = Inl e) \<longleftrightarrow>
      length key \<noteq> 16 \<and> length key \<noteq> 24 \<and> length key \<noteq> 32 \<or>
      length n' < 8 \<or> 128 < length n' \<or> gcm_open L key n' [] d = None"
    by (auto simp: gcm_stage_cases split: option.splits)
qed

text \<open>
  C4. For every hex payload and 32-byte key on which \<open>decrypt_secret\<close> succeeds, the
  result is computed by these steps: the payload is hex-decoded to a serialized
  structure; the structure is parsed and \<open>nonce\<close>, \<open>cipher\<close> and \<open>tag\<close> are taken
  from it as bytes; AES-GCM decryption runs under the key and that nonce, without
  associated data, on \<open>cipher\<close> followed by \<open>tag\<close>; and the bytes it gives decode
  as UTF-8 to the result.
\<close>

theorem decrypt_secret_steps:
  assumes "length key = 32" and "decrypt_secret L (JStr payload) key = Inr s"
  shows "\<exists>serialized obj cipher nonce tag plain.
           fromhex_str payload = Inr serialized \<and>
           json_loads L serialized = Inr obj \<and>
           and_then (subscript obj (lit ''nonce'')) bytes_of = Inr nonce \<and>
           and_then (subscript obj (lit ''cipher'')) bytes_of = Inr cipher \<and>
           and_then (subscript obj (lit ''tag'')) bytes_of = Inr tag \<and>
           gcm_open L key nonce [] (cipher @ tag) = Some plain \<and>
           utf8_decode plain = Inr s"
proof -
  from assms(2) obtain serialized obj cipher nonce tag plain where
    a: "fromhex_str payload = Inr serialized" "json_loads L serialized = Inr obj"
      "and_then (subscript obj (lit ''cipher'')) bytes_of = Inr cipher"
      "and_then (subscript obj (lit ''nonce'')) bytes_of = Inr nonce"
      "and_then (subscript obj (lit ''tag'')) bytes_of = Inr tag"
      "utf8_decode plain = Inr s"
    and g: "and_then (AESGCM key) (\<lambda>a. AESGCM_decrypt L a nonce (cipher @ tag) None) = Inr plain"
    unfolding decrypt_secret_Inr by blast
  from g assms(1) have "gcm_open L key nonce [] (cipher @ tag) = Some plain"
    by (simp add: AESGCM_def AESGCM_decrypt_def and_then_def split: if_splits option.splits)
  with a show ?thesis by blast
qed

theorem decrypt_secret_steps_witness:
  "length zero_key = 32 \<and>
   decrypt_secret fixture (JStr (hexlify hunter2_doc)) zero_key = Inr (lit ''hunter2'') \<and>
   (\<exists>serialized obj cipher nonce tag plain.
      fromhex_str (hexlify hunter2_doc) = Inr serialized \<and>
      json_loads fixture serialized = Inr obj \<and>
      and_then (subscript obj (lit ''nonce'')) bytes_of = Inr nonce \<and>
      and_then (subscript obj (lit ''cipher'')) bytes_of = Inr cipher \<and>
      and_then (subscript obj (lit ''tag'')) bytes_of = Inr tag \<and>
      gcm_open fixture zero_key nonce [] (cipher @ tag) = Some plain \<and>
      utf8_decode plain = Inr (lit ''hunter2''))"
proof -
  have k: "length zero_key = 32"
    by (simp add: zero_key_def)
  show ?thesis
    using k hunter2_decrypts decrypt_secret_steps [OF k hunter2_decrypts] by blast
qed

section \<open>Properties of the session store\<close>

lemma ProjectContext_load_dict:
  assumes "fs zap_file = Some (File (Inr (JDict d)))"
  shows "ProjectContext_load zap_file fs =
     (case map_of d (lit ''current_session'') of
        None \<Rightarrow> Inr None
      | Some c \<Rightarrow>
          Inr (Some \<lparr>app = (case map_of d (lit ''app'') of None \<Rightarrow> JStr (lit ''zap'') | Some a \<Rightarrow> a),
                     current_session = c,
                     available_secrets =
                       (case map_of d (lit ''available_secrets'') of None \<Rightarrow> JList [] | Some l \<Rightarrow> l)\<rparr>))"
  using assms
  by (simp add: ProjectContext_load_def ProjectContext_init_def read_json_def and_then_def
      caught_on_load_def split: option.splits)

text \<open>
  C10. When \<open>zap.json\<close> holds a JSON object, \<open>ProjectContext.load\<close> answers that there
  is no context if the object lacks the key \<open>current_session\<close>, without raising; and if
  the key is there it returns a context, in which a missing \<open>app\<close> is \<open>"zap"\<close> and a
  missing \<open>available_secrets\<close> is the empty list. So \<open>current_session\<close> is the only key
  the object needs.
\<close>

theorem load_requires_only_current_session:
  assumes "fs zap_file = Some (File (Inr (JDict d)))"
  shows "ProjectContext_load zap_file fs =
     (case map_of d (lit ''current_session'') of
        None \<Rightarrow> Inr None
      | Some c \<Rightarrow>
          Inr (Some \<lparr>app = (case map_of d (lit ''app'') of None \<Rightarrow> JStr (lit ''zap'') | Some a \<Rightarrow> a),
                     current_session = c,
                     available_secrets =
                       (case map_of d (lit ''available_secrets'') of None \<Rightarrow> JList [] | Some l \<Rightarrow> l)\<rparr>))"
  using assms by (rule ProjectContext_load_dict)

theorem load_requires_only_current_session_witness:
  "example_fs (lit ''zap.json'') =
     Some (File (Inr (JDict [(lit ''current_session'', JStr (lit ''dev''))]))) \<and>
   ProjectContext_load (lit ''zap.json'') example_fs =
     Inr (Some \<lparr>app = JStr (lit ''zap''), current_session = JStr (lit ''dev''),
                available_secrets = JList []\<rparr>) \<and>
   ProjectContext_load (lit ''zap.json'')
       [lit ''zap.json'' \<mapsto> File (Inr (JDict [(lit ''app'', JStr (lit ''zap''))]))] =
     Inr None"
proof -
  have a: "example_fs (lit ''zap.json'') =
      Some (File (Inr (JDict [(lit ''current_session'', JStr (lit ''dev''))])))"
    by (simp add: example_fs_def lit_def)
  have b: "[lit ''zap.json'' \<mapsto> File (Inr (JDict [(lit ''app'', JStr (lit ''zap''))]))]
      (lit ''zap.json'') = Some (File (Inr (JDict [(lit ''app'', JStr (lit ''zap''))])))"
    by simp
  show ?thesis
    using a b
      load_requires_only_current_session
        [of example_fs "lit ''zap.json''" "[(lit ''current_session'', JStr (lit ''dev''))]"]
      load_requires_only_current_session
        [of "[lit ''zap.json'' \<mapsto> File (Inr (JDict [(lit ''app'', JStr (lit ''zap''))]))]"
          "lit ''zap.json''" "[(lit ''app'', JStr (lit ''zap''))]"]
    by (simp add: lit_def)
qed

text \<open>
  When the line that reports the session as stopped is printed, \<open>stop\<close> of a session
  whose file is present and which \<open>zap.json\<close> names as current removes both the
  session file and \<open>zap.json\<close>, also when the two are the same path.
\<close>

lemma stop_clears_when_printed:
  assumes zap: "fs zap_file = Some (File (Inr (JDict d)))"
    and cur: "map_of d (lit ''current_session'') = Some (JStr name)"
    and ses: "fs (session_path name) = Some (File r)"
    and out: "console (Stopped name) = None"
  shows "snd (stop console session_path zap_file name fs) zap_file = None \<and>
         snd (stop console session_path zap_file name fs) (session_path name) = None"
proof (cases "session_path name = zap_file")
  case True
  then show ?thesis
    using ses out
    by (simp add: stop_def unlink_def ProjectContext_load_def)
next
  case False
  have load: "ProjectContext_load zap_file (fs(session_path name := None)) =
      Inr (Some \<lparr>app = (case map_of d (lit ''app'') of None \<Rightarrow> JStr (lit ''zap'') | Some a \<Rightarrow> a),
                 current_session = JStr name,
                 available_secrets =
                   (case map_of d (lit ''available_secrets'') of None \<Rightarrow> JList [] | Some l \<Rightarrow> l)\<rparr>)"
    using ProjectContext_load_dict [of "fs(session_path name := None)" zap_file d] zap cur False
    by simp
  show ?thesis
    using ses out zap False
    by (simp add: stop_def unlink_def load eq_str_def unlink_missing_ok_def)
qed

text \<open>
  C7 on the session \<open>[/x]\<close>: \<open>zap.json\<close> names it as current and its session file
  is present. \<open>stop\<close> removes the session file, the line that reports it raises
  \<open>MarkupError\<close>, and the command ends there: \<open>zap.json\<close> is still in place and
  still names the session that is gone.
\<close>

theorem stop_markup_name_keeps_project_context:
  "markup_fs (lit ''zap.json'') =
     Some (File (Inr (JDict [(lit ''current_session'', JStr (lit ''[/x]''))]))) \<and>
   markup_fs (example_session_path (lit ''[/x]'')) = Some (File (Inr good_session)) \<and>
   fst (stop markup_console example_session_path (lit ''zap.json'') (lit ''[/x]'') markup_fs) =
     Some MarkupError \<and>
   snd (stop markup_console example_session_path (lit ''zap.json'') (lit ''[/x]'') markup_fs)
     (example_session_path (lit ''[/x]'')) = None \<and>
   snd (stop markup_console example_session_path (lit ''zap.json'') (lit ''[/x]'') markup_fs)
     (lit ''zap.json'') =
     Some (File (Inr (JDict [(lit ''current_session'', JStr (lit ''[/x]''))])))"
  by (simp add: stop_def unlink_def markup_console_def markup_fs_def example_session_path_def
      lit_def)

text \<open>
  C6 on a directory with a well-formed session file and one whose \<open>session_key\<close> is not
  hexadecimal: \<open>bytes.fromhex\<close> raises \<open>ValueError\<close>, which the loop does not catch,
  so \<open>list_all\<close> raises instead of returning the well-formed session. A file whose
  JSON value is not an object leaves the loop in the same way, with \<open>TypeError\<close>;
  a file that is not JSON is skipped.
\<close>

theorem list_all_raises_on_bad_session_key:
  "SessionFile_list_all lt (Some [File (Inr good_session), File (Inr bad_key_session)]) =
     Inl ValueError \<and>
   SessionFile_list_all lt (Some [File (Inr good_session), File (Inr (JList []))]) = Inl TypeError \<and>
   SessionFile_list_all lt (Some [File (Inr good_session), File (Inl JSONDecodeError)]) =
     Inr [\<lparr>session_name = JStr (lit ''dev''), box_name = JStr (lit ''work''),
           session_key = [0, 255], encrypted_secrets = JDict [],
           created_at = JStr (lit ''2024-01-01T00:00:00Z'')\<rparr>]"
  by (simp add: SessionFile_list_all_def read_json_def SessionFile_init_def good_session_def
      bad_key_session_def lit_def and_then_def caught_on_load_def is_space_def hex_digit_def)

section \<open>Properties of the injection loop\<close>

lemma inject_one_quiet:
  assumes "\<forall>ln. console ln = None"
  shows "inject_one console L U key prefix verbose n h st =
     (case decrypt_secret L h key of
        Inl e \<Rightarrow> (Some e, st)
      | Inr v \<Rightarrow> (None, (fst st)(secret_name_to_env_var U n prefix \<mapsto> v),
                  snd st @ (if verbose then [Loaded (secret_name_to_env_var U n prefix)] else [])))"
  using assms by (simp add: inject_one_def Let_def split: sum.splits)

lemma inject_secrets_Cons_quiet:
  assumes "\<forall>ln. console ln = None"
  shows "inject_secrets console L U key prefix verbose ((n, h) # rest) st =
     inject_secrets console L U key prefix verbose rest
       (case decrypt_secret L h key of
          Inl e \<Rightarrow> (fst st, snd st @ [Failed n e])
        | Inr v \<Rightarrow> ((fst st)(secret_name_to_env_var U n prefix \<mapsto> v),
                  snd st @ (if verbose then [Loaded (secret_name_to_env_var U n prefix)] else [])))"
  using assms by (simp add: inject_one_quiet [OF assms] split: sum.splits)

lemma inject_secrets_returns:
  assumes "\<forall>ln. console ln = None"
  shows "\<exists>st'. inject_secrets console L U key prefix verbose items st = Inr st'"
proof (induction items arbitrary: st)
  case Nil
  show ?case by simp
next
  case (Cons x items)
  obtain n h where x: "x = (n, h)" by (cases x)
  show ?case
    unfolding x inject_secrets_Cons_quiet [OF assms] by (rule Cons.IH)
qed

lemma inject_secrets_keeps:
  assumes "\<forall>ln. console ln = None"
    and "inject_secrets console L U key prefix verbose post st = Inr st'"
    and "\<And>n' h' v'. (n', h') \<in> set post \<Longrightarrow> decrypt_secret L h' key = Inr v' \<Longrightarrow>
           secret_name_to_env_var U n' prefix \<noteq> m"
  shows "fst st' m = fst st m"
  using assms(2,3)
proof (induction post arbitrary: st)
  case Nil
  then show ?case by simp
next
  case (Cons x post)
  obtain n h where x: "x = (n, h)" by (cases x)
  let ?st1 = "case decrypt_secret L h key of
          Inl e \<Rightarrow> (fst st, snd st @ [Failed n e])
        | Inr v \<Rightarrow> ((fst st)(secret_name_to_env_var U n prefix \<mapsto> v),
                  snd st @ (if verbose then [Loaded (secret_name_to_env_var U n prefix)] else []))"
  have run: "inject_secrets console L U key prefix verbose post ?st1 = Inr st'"
    using Cons.prems(1) unfolding x inject_secrets_Cons_quiet [OF assms(1)] .
  have "fst st' m = fst ?st1 m"
    using run Cons.prems(2) by (intro Cons.IH) auto
  moreover have "fst ?st1 m = fst st m"
    using Cons.prems(2) [of n h] x by (auto split: sum.splits)
  ultimately show ?case by simp
qed

lemma inject_secrets_log_grows:
  assumes "\<forall>ln. console ln = None"
    and "inject_secrets console L U key prefix verbose items st = Inr st'"
  shows "set (snd st) \<subseteq> set (snd st')"
  using assms(2)
proof (induction items arbitrary: st)
  case Nil
  then show ?case by simp
next
  case (Cons x items)
  obtain n h where x: "x = (n, h)" by (cases x)
  let ?st1 = "case decrypt_secret L h key of
          Inl e \<Rightarrow> (fst st, snd st @ [Failed n e])
        | Inr v \<Rightarrow> ((fst st)(secret_name_to_env_var U n prefix \<mapsto> v),
                  snd st @ (if verbose then [Loaded (secret_name_to_env_var U n prefix)] else []))"
  have run: "inject_secrets console L U key prefix verbose items ?st1 = Inr st'"
    using Cons.prems unfolding x inject_secrets_Cons_quiet [OF assms(1)] .
  have "set (snd st) \<subseteq> set (snd ?st1)"
    by (auto split: sum.splits)
  with Cons.IH [OF run] show ?case by blast
qed

lemma inject_secrets_append:
  "inject_secrets console L U key prefix verbose (xs @ ys) st =
     and_then (inject_secrets console L U key prefix verbose xs st)
       (inject_secrets console L U key prefix verbose ys)"
proof (induction xs arbitrary: st)
  case Nil
  show ?case by (simp add: and_then_def)
next
  case (Cons x xs)
  obtain n h where x: "x = (n, h)" by (cases x)
  show ?case
    unfolding x by (simp add: Cons.IH and_then_def split: prod.splits option.splits)
qed

lemma inject_secrets_success_kept:
  assumes quiet: "\<forall>ln. console ln = None"
    and run: "inject_secrets console L U key prefix verbose (pre @ (n, h) # post) st = Inr st'"
    and ok: "decrypt_secret L h key = Inr v"
    and later: "\<And>n' h' v'. (n', h') \<in> set post \<Longrightarrow> decrypt_secret L h' key = Inr v' \<Longrightarrow>
           secret_name_to_env_var U n' prefix \<noteq> secret_name_to_env_var U n prefix"
  shows "fst st' (secret_name_to_env_var U n prefix) = Some v"
proof -
  obtain st1 where pre: "inject_secrets console L U key prefix verbose pre st = Inr st1"
    using inject_secrets_returns [OF quiet] by blast
  let ?st2 = "((fst st1)(secret_name_to_env_var U n prefix \<mapsto> v),
      snd st1 @ (if verbose then [Loaded (secret_name_to_env_var U n prefix)] else []))"
  have "inject_secrets console L U key prefix verbose post ?st2 = Inr st'"
    using run pre ok
    by (simp add: inject_secrets_append and_then_def inject_secrets_Cons_quiet [OF quiet]
        del: inject_secrets.simps(2))
  then have "fst st' (secret_name_to_env_var U n prefix) = fst ?st2 (secret_name_to_env_var U n prefix)"
    using later by (rule inject_secrets_keeps [OF quiet])
  then show ?thesis by simp
qed

lemma inject_secrets_failure_logged:
  assumes quiet: "\<forall>ln. console ln = None"
    and run: "inject_secrets console L U key prefix verbose items st = Inr st'"
    and mem: "(n, h) \<in> set items"
    and bad: "decrypt_secret L h key = Inl e"
  shows "Failed n e \<in> set (snd st')"
proof -
  obtain pre post where items: "items = pre @ (n, h) # post"
    using mem by (meson split_list)
  obtain st1 where pre: "inject_secrets console L U key prefix verbose pre st = Inr st1"
    using inject_secrets_returns [OF quiet] by blast
  have "inject_secrets console L U key prefix verbose post (fst st1, snd st1 @ [Failed n e]) = Inr st'"
    using run pre bad unfolding items
    by (simp add: inject_secrets_append and_then_def inject_secrets_Cons_quiet [OF quiet]
        del: inject_secrets.simps(2))
  from inject_secrets_log_grows [OF quiet this] show ?thesis by auto
qed

lemma collision_run:
  "injected (run_inject quiet_console fixture latin1 None False (session_of collision_items)
      Map.empty) (lit ''A_B'') = Some (lit ''s3cret'')"
proof -
  have names:
    "secret_name_to_env_var latin1 (lit ''a-b'') None = lit ''A_B''"
    "secret_name_to_env_var latin1 (lit ''a_b'') None = lit ''A_B''"
    by (simp_all add: derive_defs)
  show ?thesis
    by (simp add: run_inject_def session_of_def collision_items_def inject_one_def
      hunter2_decrypts s3cret_decrypts names quiet_console_def injected_def)
qed

lemma partial_run:
  "injected (run_inject quiet_console fixture latin1 None False (session_of partial_items)
      Map.empty) (lit ''DB_PASS'') = Some (lit ''hunter2'') \<and>
   injected (run_inject quiet_console fixture latin1 None False (session_of partial_items)
      Map.empty) (lit ''API_KEY'') = Some (lit ''s3cret'') \<and>
   printed (run_inject quiet_console fixture latin1 None False (session_of partial_items)
      Map.empty) = [Failed (lit ''broken'') ValueError]"
proof -
  have bad: "decrypt_secret fixture (JStr (lit ''zz'')) zero_key = Inl ValueError"
    by (simp add: decrypt_secret_def and_then_def lit_def is_space_def hex_digit_def)
  have names:
    "secret_name_to_env_var latin1 (lit ''db-pass'') None = lit ''DB_PASS''"
    "secret_name_to_env_var latin1 (lit ''api key'') None = lit ''API_KEY''"
    by (simp_all add: derive_defs)
  have run: "run_inject quiet_console fixture latin1 None False (session_of partial_items)
      Map.empty =
    Inr ([lit ''DB_PASS'' \<mapsto> lit ''hunter2'', lit ''API_KEY'' \<mapsto> lit ''s3cret''],
         [Failed (lit ''broken'') ValueError])"
    by (simp add: run_inject_def session_of_def partial_items_def inject_one_def
      hunter2_decrypts s3cret_decrypts bad names quiet_console_def)
  show ?thesis
    unfolding run by (simp add: injected_def printed_def lit_def)
qed

text \<open>
  Two secrets that derive the same variable: the later assignment replaces the earlier
  one. The secrets \<open>a-b\<close> and \<open>a_b\<close> both decrypt and both derive \<open>A_B\<close>, and
  the environment binds \<open>A_B\<close> to the plaintext of the second.
\<close>

lemma colliding_names_last_wins:
  "decrypt_secret fixture (JStr (hexlify hunter2_doc)) (session_key (session_of collision_items)) =
     Inr (lit ''hunter2'') \<and>
   secret_name_to_env_var latin1 (lit ''a-b'') None = lit ''A_B'' \<and>
   encrypted_secrets (session_of collision_items) =
     JDict [(lit ''a-b'', JStr (hexlify hunter2_doc)), (lit ''a_b'', JStr (hexlify s3cret_doc))] \<and>
   injected (run_inject quiet_console fixture latin1 None False (session_of collision_items)
      Map.empty) (lit ''A_B'') = Some (lit ''s3cret'')"
proof -
  have "secret_name_to_env_var latin1 (lit ''a-b'') None = lit ''A_B''"
    by (simp add: derive_defs)
  then show ?thesis
    using collision_run hunter2_decrypts by (simp add: session_of_def collision_items_def)
qed

text \<open>
  When every line of the loop is printed, the loop runs to its end whatever entries fail:
  every entry whose decryption fails is recorded by its failure line and skipped, and the
  environment binds the derived name of every entry that decrypts to its plaintext, unless
  a later entry that decrypts derives the same name.
\<close>

lemma failures_skipped_when_printed:
  assumes quiet: "\<forall>ln. console ln = None"
    and items: "encrypted_secrets sf = JDict items"
  shows "\<exists>env' out.
     run_inject console L U prefix verbose sf env = Inr (env', out) \<and>
     (\<forall>pre n h post v.
        items = pre @ (n, h) # post \<and> decrypt_secret L h (session_key sf) = Inr v \<and>
        (\<forall>(n', h') \<in> set post.
            secret_name_to_env_var U n' prefix = secret_name_to_env_var U n prefix \<longrightarrow>
            (\<exists>e. decrypt_secret L h' (session_key sf) = Inl e)) \<longrightarrow>
        env' (secret_name_to_env_var U n prefix) = Some v) \<and>
     (\<forall>n h e. (n, h) \<in> set items \<and> decrypt_secret L h (session_key sf) = Inl e \<longrightarrow>
        Failed n e \<in> set out)"
proof -
  obtain st' where run:
    "inject_secrets console L U (session_key sf) prefix verbose items (env, []) = Inr st'"
    using inject_secrets_returns [OF quiet] by blast
  have r: "run_inject console L U prefix verbose sf env = Inr (fst st', snd st')"
    using items run by (simp add: run_inject_def)
  have a: "fst st' (secret_name_to_env_var U n prefix) = Some v"
    if "items = pre @ (n, h) # post" "decrypt_secret L h (session_key sf) = Inr v"
      "\<forall>(n', h') \<in> set post.
            secret_name_to_env_var U n' prefix = secret_name_to_env_var U n prefix \<longrightarrow>
            (\<exists>e. decrypt_secret L h' (session_key sf) = Inl e)"
    for pre n h post v
  proof (rule inject_secrets_success_kept [OF quiet _ that(2)])
    show "inject_secrets console L U (session_key sf) prefix verbose (pre @ (n, h) # post) (env, []) = Inr st'"
      using run that(1) by simp
  next
    fix n' h' v'
    assume "(n', h') \<in> set post" "decrypt_secret L h' (session_key sf) = Inr v'"
    then show "secret_name_to_env_var U n' prefix \<noteq> secret_name_to_env_var U n prefix"
      using that(3) by auto
  qed
  have b: "Failed n e \<in> set (snd st')"
    if "(n, h) \<in> set items" "decrypt_secret L h (session_key sf) = Inl e" for n h e
    using inject_secrets_failure_logged [OF quiet run that] .
  show ?thesis
    using r a b by blast
qed

lemma partial_failure_example:
  "(\<forall>ln. quiet_console ln = None) \<and>
   encrypted_secrets (session_of partial_items) = JDict partial_items \<and>
   injected (run_inject quiet_console fixture latin1 None False (session_of partial_items)
      Map.empty) (lit ''DB_PASS'') = Some (lit ''hunter2'') \<and>
   injected (run_inject quiet_console fixture latin1 None False (session_of partial_items)
      Map.empty) (lit ''API_KEY'') = Some (lit ''s3cret'') \<and>
   Failed (lit ''broken'') ValueError \<in>
     set (printed (run_inject quiet_console fixture latin1 None False (session_of partial_items)
       Map.empty))"
proof -
  have q: "\<forall>ln. quiet_console ln = None"
    by (simp add: quiet_console_def)
  have i: "encrypted_secrets (session_of partial_items) = JDict partial_items"
    by (simp add: session_of_def)
  show ?thesis
    using q i partial_run failures_skipped_when_printed [OF q i, of fixture latin1 None False Map.empty]
    by simp
qed

text \<open>
  C5 on a session whose first secret is named \<open>[/x]\<close> and does not decrypt, and whose
  second secret decrypts: the handler of the failure prints the name, the print raises
  \<open>MarkupError\<close> inside the handler, and the exception leaves the loop. The second
  secret is never processed and no environment is produced.
\<close>

theorem failure_line_markup_aborts_injection:
  "encrypted_secrets (session_of markup_items) =
     JDict [(lit ''[/x]'', JStr (lit ''zz'')), (lit ''db-pass'', JStr (hexlify hunter2_doc))] \<and>
   decrypt_secret fixture (JStr (lit ''zz'')) (session_key (session_of markup_items)) =
     Inl ValueError \<and>
   decrypt_secret fixture (JStr (hexlify hunter2_doc)) (session_key (session_of markup_items)) =
     Inr (lit ''hunter2'') \<and>
   run_inject markup_console fixture latin1 None False (session_of markup_items) Map.empty =
     Inl MarkupError \<and>
   injected (run_inject markup_console fixture latin1 None False (session_of markup_items)
     Map.empty) (lit ''DB_PASS'') = None"
proof -
  have bad: "decrypt_secret fixture (JStr (lit ''zz'')) zero_key = Inl ValueError"
    by (simp add: decrypt_secret_def and_then_def lit_def is_space_def hex_digit_def)
  have run: "run_inject markup_console fixture latin1 None False (session_of markup_items)
      Map.empty = Inl MarkupError"
    by (simp add: run_inject_def session_of_def markup_items_def inject_one_def bad
        markup_console_def)
  show ?thesis
    unfolding run using bad hunter2_decrypts
    by (simp add: session_of_def markup_items_def injected_def)
qed

section \<open>Round trip of encryption and decryption\<close>

lemma unat_byte: "n < 256 \<Longrightarrow> unat (of_nat n :: byte) = n"
  by (simp add: unat_of_nat)

lemma three_byte_value: "c div 4096 * 4096 + c div 64 mod 64 * 64 + c mod 64 = (c::nat)"
proof -
  have a: "c div 4096 = c div 64 div 64"
    by (simp add: div_mult2_eq)
  have "(c div 64 div 64 * 64 + c div 64 mod 64) * 64 + c mod 64 = c"
    by simp
  then have "c div 64 div 64 * 64 * 64 + c div 64 mod 64 * 64 + c mod 64 = c"
    by (simp only: add_mult_distrib)
  then show ?thesis
    unfolding a by (simp only: mult.assoc)
qed

lemma four_byte_value:
  "c div 262144 * 262144 + c div 4096 mod 64 * 4096 + c div 64 mod 64 * 64 + c mod 64 = (c::nat)"
proof -
  have a: "c div 262144 = c div 4096 div 64"
    by (simp add: div_mult2_eq)
  have "(c div 4096 div 64 * 64 + c div 4096 mod 64) * 4096 = c div 4096 * 4096"
    by simp
  then have "c div 4096 div 64 * 64 * 4096 + c div 4096 mod 64 * 4096 = c div 4096 * 4096"
    by (simp only: add_mult_distrib)
  then have b: "c div 4096 div 64 * 262144 + c div 4096 mod 64 * 4096 = c div 4096 * 4096"
    by (simp only: mult.assoc)
  show ?thesis
    unfolding a b using three_byte_value [of c] by simp
qed

lemma lead_byte_bound: "c < 1114112 \<Longrightarrow> c div 262144 < (5::nat)"
  by (rule less_mult_imp_div_less) simp

lemma uint_byte_small: "uint (b :: 8 word) < 256"
  using uint_lt2p [of b] by simp

lemma utf8_first_one: "unat b0 = c \<Longrightarrow> c < 128 \<Longrightarrow> utf8_first b0 rest = Some (c, 0)"
  by (simp add: utf8_first_def)

lemma utf8_first_two:
  assumes "unat b0 = 192 + c div 64" "unat b1 = 128 + c mod 64" "128 \<le> c" "c < 2048"
  shows "utf8_first b0 (b1 # rest) = Some (c, 1)"
proof -
  have "2 \<le> c div 64" "c div 64 < 32"
    using assms(3,4) by simp_all
  then show ?thesis
    using assms(1,2) by (simp add: utf8_first_def cont_def)
qed

lemma utf8_first_three:
  assumes "unat b0 = 224 + c div 4096" "unat b1 = 128 + c div 64 mod 64"
    "unat b2 = 128 + c mod 64" "2048 \<le> c" "c < 65536" "scalar c"
  shows "utf8_first b0 (b1 # b2 # rest) = Some (c, 2)"
proof -
  have d: "c div 4096 < 16"
    using assms(5) by simp
  note e = three_byte_value [of c]
  show ?thesis
    using assms d e by (simp add: utf8_first_def cont_def Let_def scalar_def)
qed

lemma utf8_first_four:
  assumes "unat b0 = 240 + c div 262144" "unat b1 = 128 + c div 4096 mod 64"
    "unat b2 = 128 + c div 64 mod 64" "unat b3 = 128 + c mod 64" "65536 \<le> c" "scalar c"
  shows "utf8_first b0 (b1 # b2 # b3 # rest) = Some (c, 3)"
proof -
  have "c < 1114112"
    using assms(6) by (simp add: scalar_def)
  then have d: "c div 262144 < 5"
    by (rule lead_byte_bound)
  note e = four_byte_value [of c]
  show ?thesis
    using assms d e by (simp add: utf8_first_def cont_def Let_def scalar_def)
qed

lemma utf8_decode_encode_char:
  assumes "scalar c"
  shows "utf8_decode (utf8_encode_char c @ rest) = and_then (utf8_decode rest) (\<lambda>s. Inr (c # s))"
proof -
  consider "c < 128" | "128 \<le> c" "c < 2048" | "2048 \<le> c" "c < 65536" | "65536 \<le> c"
    by linarith
  then show ?thesis
  proof cases
    case 1
    have "utf8_first (of_nat c) rest = Some (c, 0)"
      using 1 by (intro utf8_first_one unat_byte) simp_all
    then show ?thesis
      using 1 by (simp add: utf8_encode_char_def)
  next
    case 2
    have "c div 64 < 32" using 2 by simp
    then have "utf8_first (of_nat (192 + c div 64)) (of_nat (128 + c mod 64) # rest) = Some (c, 1)"
      using 2 by (intro utf8_first_two unat_byte) simp_all
    then show ?thesis
      using 2 by (simp add: utf8_encode_char_def del: of_nat_add)
  next
    case 3
    have "c div 4096 < 16" using 3 by simp
    then have "utf8_first (of_nat (224 + c div 4096))
        (of_nat (128 + c div 64 mod 64) # of_nat (128 + c mod 64) # rest) = Some (c, 2)"
      using 3 assms by (intro utf8_first_three unat_byte) simp_all
    then show ?thesis
      using 3 by (simp add: utf8_encode_char_def del: of_nat_add)
  next
    case 4
    have "c < 1114112" using assms by (simp add: scalar_def)
    then have "c div 262144 < 5" by (rule lead_byte_bound)
    then have "utf8_first (of_nat (240 + c div 262144))
        (of_nat (128 + c div 4096 mod 64) # of_nat (128 + c div 64 mod 64) #
         of_nat (128 + c mod 64) # rest) = Some (c, 3)"
      using 4 assms by (intro utf8_first_four unat_byte) simp_all
    then show ?thesis
      using 4 by (simp add: utf8_encode_char_def del: of_nat_add)
  qed
qed

lemma utf8_decode_encode: "list_all scalar s \<Longrightarrow> utf8_decode (utf8_encode s) = Inr s"
proof (induction s)
  case Nil
  show ?case by (simp add: utf8_encode_def)
next
  case (Cons c s)
  have "utf8_encode (c # s) = utf8_encode_char c @ utf8_encode s"
    by (simp add: utf8_encode_def)
  then show ?case
    using Cons by (simp add: utf8_decode_encode_char and_then_def)
qed

lemma bytes_of_json_bytes: "bytes_of (json_bytes bs) = Inr bs"
proof -
  note small = uint_byte_small
  have "bytes_of_items (map (\<lambda>b. JInt (uint b)) bs) = Inr bs"
    by (induction bs) (simp_all add: and_then_def small)
  then show ?thesis by (simp add: json_bytes_def)
qed

text \<open>
  C9. Round trip: for every plaintext of Unicode scalar values, every 32-byte key and
  every 12-byte nonce, decrypting the encryption of the plaintext under the key gives
  the plaintext back, whenever AES-GCM opens what it sealed and \<open>json.loads\<close> reads
  back the serialized structure.
\<close>

theorem decrypt_encrypt_roundtrip:
  assumes key: "length key = 32"
    and nonce: "length nonce = 12"
    and valid: "list_all scalar plaintext"
    and aead: "gcm_open L key nonce [] (gcm_seal W key nonce [] (utf8_encode plaintext)) =
                 Some (utf8_encode plaintext)"
    and codec: "json_loads L (json_dumps W (sealed_structure W nonce plaintext key)) =
                 Inr (sealed_structure W nonce plaintext key)"
  shows "decrypt_secret L (encrypt W nonce plaintext key) key = Inr plaintext"
proof -
  let ?sealed = "gcm_seal W key nonce [] (utf8_encode plaintext)"
  let ?c = "take (length ?sealed - 16) ?sealed" and ?t = "drop (length ?sealed - 16) ?sealed"
  have parse: "parse_fields L (json_dumps W (sealed_structure W nonce plaintext key)) =
      Inr (?c, nonce, ?t)"
    unfolding parse_fields_def codec
    by (simp add: sealed_structure_def Let_def and_then_def bytes_of_json_bytes lit_def)
  have gcm: "gcm_stage L key nonce ?sealed = Inr (utf8_encode plaintext)"
    using key nonce aead by (simp add: gcm_stage_cases)
  show ?thesis
    unfolding encrypt_def decrypt_secret_stages
    by (simp add: fromhex_hexlify parse gcm and_then_def utf8_decode_encode [OF valid])
qed

lemma hunter2_encoded: "utf8_encode (lit ''hunter2'') = [104, 117, 110, 116, 101, 114, 50]"
  by (simp add: utf8_encode_def utf8_encode_char_def lit_def)

lemma hunter2_structure:
  "sealed_structure fixture_sealer zero_nonce (lit ''hunter2'') zero_key = hunter2_obj"
  by (simp add: sealed_structure_def hunter2_encoded fixture_sealer_def fixture_seal_def
      hunter2_obj_def json_bytes_def zero_nonce_def)

theorem decrypt_encrypt_roundtrip_witness:
  "length zero_key = 32 \<and> length zero_nonce = 12 \<and> list_all scalar (lit ''hunter2'') \<and>
   gcm_open fixture zero_key zero_nonce []
     (gcm_seal fixture_sealer zero_key zero_nonce [] (utf8_encode (lit ''hunter2''))) =
     Some (utf8_encode (lit ''hunter2'')) \<and>
   json_loads fixture
     (json_dumps fixture_sealer
        (sealed_structure fixture_sealer zero_nonce (lit ''hunter2'') zero_key)) =
     Inr (sealed_structure fixture_sealer zero_nonce (lit ''hunter2'') zero_key) \<and>
   encrypt fixture_sealer zero_nonce (lit ''hunter2'') zero_key = JStr (hexlify hunter2_doc) \<and>
   decrypt_secret fixture (encrypt fixture_sealer zero_nonce (lit ''hunter2'') zero_key) zero_key =
     Inr (lit ''hunter2'')"
proof -
  have k: "length zero_key = 32" and n: "length zero_nonce = 12"
    by (simp_all add: zero_key_def zero_nonce_def)
  have v: "list_all scalar (lit ''hunter2'')"
    by (simp add: lit_def scalar_def)
  have a: "gcm_open fixture zero_key zero_nonce []
      (gcm_seal fixture_sealer zero_key zero_nonce [] (utf8_encode (lit ''hunter2''))) =
      Some (utf8_encode (lit ''hunter2''))"
    by (simp add: hunter2_encoded fixture_def fixture_open_def fixture_sealer_def fixture_seal_def)
  have c: "json_loads fixture
      (json_dumps fixture_sealer
         (sealed_structure fixture_sealer zero_nonce (lit ''hunter2'') zero_key)) =
      Inr (sealed_structure fixture_sealer zero_nonce (lit ''hunter2'') zero_key)"
    unfolding hunter2_structure
    by (simp add: fixture_def fixture_loads_def fixture_sealer_def fixture_dumps_def)
  have e: "encrypt fixture_sealer zero_nonce (lit ''hunter2'') zero_key =
      JStr (hexlify hunter2_doc)"
    unfolding encrypt_def hunter2_structure
    by (simp add: fixture_sealer_def fixture_dumps_def)
  show ?thesis
    using k n v a c e decrypt_encrypt_roundtrip [OF k n v a c] by simp
qed

end
